theory Spec2Isabelle
  imports Complex_Main "HOL-Library.AList"
begin

section \<open>Python values and dictionaries\<close>

text \<open>
  The three adapters exchange plain Python data with their host: \<open>None\<close>, booleans,
  integers, floats, strings, lists and dictionaries. Dictionary keys are strings or
  integers (endpoint ids and radio channels are integer keys). A dictionary keeps its
  insertion order, so it is an association list with pairwise distinct keys.
  Two further leaves stand for the objects that \<open>shallow_asdict\<close> inspects: an instance
  of a dataclass, given by its fields in declaration order, and an object that offers
  \<open>as_dict()\<close>, given by what that call returns.
  Floats are read as real numbers: the rounding of binary floating point is not part
  of the model.
\<close>

datatype pykey = KStr string | KInt int

datatype pyval =
    VNone
  | VBool bool
  | VInt int
  | VReal real
  | VStr string
  | VList "pyval list"
  | VDict "(pykey \<times> pyval) list"
  | VData "(string \<times> pyval) list"
  | VAsDict pyval

type_synonym pydict = "(pykey \<times> pyval) list"

datatype error = KeyError pykey | Invalid string | AttributeError | TypeError

text \<open>\<open>d[k]\<close> raises \<open>KeyError\<close> on a missing key; \<open>d.get(k)\<close> yields \<open>None\<close>.\<close>

definition dict_item :: "pydict \<Rightarrow> pykey \<Rightarrow> error + pyval" where
  "dict_item d k = (case map_of d k of None \<Rightarrow> Inl (KeyError k) | Some v \<Rightarrow> Inr v)"

definition dict_get :: "pydict \<Rightarrow> pykey \<Rightarrow> pyval" where
  "dict_get d k = (case map_of d k of None \<Rightarrow> VNone | Some v \<Rightarrow> v)"

definition dict_get_default :: "pydict \<Rightarrow> pykey \<Rightarrow> pyval \<Rightarrow> pyval" where
  "dict_get_default d k dflt = (case map_of d k of None \<Rightarrow> dflt | Some v \<Rightarrow> v)"

text \<open>
  \<open>d[k] = v\<close> replaces the value of a key that is present, in place, and appends a new
  key at the end. A dictionary display or comprehension stores its items one after the
  other in this way, and so does \<open>d.update(other)\<close>.
\<close>

definition dict_set :: "'k \<Rightarrow> 'v \<Rightarrow> ('k \<times> 'v) list \<Rightarrow> ('k \<times> 'v) list" where
  "dict_set k v d = AList.update k v d"

definition dict_update :: "('k \<times> 'v) list \<Rightarrow> ('k \<times> 'v) list \<Rightarrow> ('k \<times> 'v) list" where
  "dict_update d other = fold (\<lambda>(k, v). dict_set k v) other d"

definition dict_of :: "('k \<times> 'v) list \<Rightarrow> ('k \<times> 'v) list" where
  "dict_of items = dict_update [] items"

section \<open>XS1 switch platform\<close>

text \<open>
  The actuator objects belong to the vendor client. An actuator is any value \<open>'a\<close>;
  the client's methods on it are the fields of \<open>actuator_api\<close>. \<open>turn_on\<close> and
  \<open>turn_off\<close> change the actuator, so they return the actuator after the call.
\<close>

datatype ActuatorType = SWITCH | DIMMER | OtherActuator string

record 'a actuator_api =
  act_type :: "'a \<Rightarrow> ActuatorType"
  act_name :: "'a \<Rightarrow> string"
  act_value :: "'a \<Rightarrow> real"
  act_turn_on :: "'a \<Rightarrow> 'a"
  act_turn_off :: "'a \<Rightarrow> 'a"

datatype 'a XS1SwitchEntity = XS1SwitchEntity (device: 'a)

text \<open>The loop of \<open>setup_platform\<close> with its accumulator \<open>switch_entities\<close>.\<close>

fun setup_loop :: "'a actuator_api \<Rightarrow> 'a list \<Rightarrow> 'a XS1SwitchEntity list \<Rightarrow> 'a XS1SwitchEntity list" where
  "setup_loop api [] switch_entities = switch_entities"
| "setup_loop api (actuator # rest) switch_entities =
     (if act_type api actuator = SWITCH \<or> act_type api actuator = DIMMER
      then setup_loop api rest (switch_entities @ [XS1SwitchEntity actuator])
      else setup_loop api rest switch_entities)"

text \<open>\<open>setup_platform\<close> yields the list it hands to \<open>add_entities\<close>.\<close>

definition setup_platform :: "'a actuator_api \<Rightarrow> 'a list \<Rightarrow> 'a XS1SwitchEntity list" where
  "setup_platform api actuators = setup_loop api actuators []"

definition entity_name :: "'a actuator_api \<Rightarrow> 'a XS1SwitchEntity \<Rightarrow> string" where
  "entity_name api e = act_name api (device e)"

definition is_on :: "'a actuator_api \<Rightarrow> 'a XS1SwitchEntity \<Rightarrow> bool" where
  "is_on api e = (act_value api (device e) = 100)"

definition turn_on :: "'a actuator_api \<Rightarrow> 'a XS1SwitchEntity \<Rightarrow> 'a XS1SwitchEntity" where
  "turn_on api e = XS1SwitchEntity (act_turn_on api (device e))"

definition turn_off :: "'a actuator_api \<Rightarrow> 'a XS1SwitchEntity \<Rightarrow> 'a XS1SwitchEntity" where
  "turn_off api e = XS1SwitchEntity (act_turn_off api (device e))"

section \<open>MySensors configuration flow\<close>

text \<open>
  The key names and gateway-type names come from the integration's constants module,
  which is not part of the sources at hand. They are parameters of the model.
\<close>

record mysensors_const =
  CONF_BAUD_RATE :: string
  CONF_DEVICE :: string
  CONF_GATEWAY_TYPE :: string
  CONF_GATEWAY_TYPE_MQTT :: string
  CONF_GATEWAY_TYPE_SERIAL :: string
  CONF_GATEWAY_TYPE_TCP :: string
  CONF_PERSISTENCE_FILE :: string
  CONF_TOPIC_IN_PREFIX :: string
  CONF_TOPIC_OUT_PREFIX :: string
  CONF_VERSION :: string
  MQTT_COMPONENT :: string

definition DEFAULT_BAUD_RATE :: int where
  "DEFAULT_BAUD_RATE = 115200"

definition DEFAULT_TCP_PORT :: int where
  "DEFAULT_TCP_PORT = 5003"

definition DEFAULT_VERSION :: string where
  "DEFAULT_VERSION = ''1.4''"

type_synonym errors = "(string \<times> string) list"

type_synonym validator = "pyval \<Rightarrow> error + pyval"

text \<open>
  What the flow calls outside this module: the host framework, the gateway helpers and
  the schema library. A check that raises \<open>vol.Invalid\<close> on a bad value is a predicate
  that is false there. \<open>validate_persistence_file_errors\<close> is the handler method
  \<open>self._validate_persistence_file(persistence_file, errors)\<close>, which records its
  findings in the error dictionary it is given. \<open>vol_Schema\<close> is the schema
  constructor, called with one positional argument and with keyword arguments; it
  yields a schema object of type \<open>'s\<close> or raises.
\<close>

record schema_field =
  field_key :: string
  field_required :: bool
  field_default :: "pyval option"
  field_suggested :: "pyval option"
  field_validator :: validator

record 's flow_env =
  valid_subscribe_topic :: "pyval \<Rightarrow> bool"
  current_entries :: "pydict list"
  validate_version :: "pyval \<Rightarrow> errors"
  is_socket_address :: "pyval \<Rightarrow> bool"
  is_serial_port :: "pyval \<Rightarrow> bool"
  validate_persistence_file_errors :: "pyval \<Rightarrow> errors \<Rightarrow> errors"
  is_same_device :: "string \<Rightarrow> pydict \<Rightarrow> pydict \<Rightarrow> bool"
  try_connect :: "string \<Rightarrow> pydict \<Rightarrow> bool"
  components :: "string list"
  positive_int :: validator
  vol_Schema :: "schema_field list \<Rightarrow> schema_field list \<Rightarrow> error + 's"
  py_str :: "pyval \<Rightarrow> string"

datatype 's FlowResult =
    ShowMenu string "string list"
  | Abort string
  | CreateEntry string pydict
  | ShowForm string 's errors

text \<open>Truth value of a Python object, as \<open>if x\<close> and \<open>not x\<close> test it.\<close>

fun truthy :: "pyval \<Rightarrow> bool" where
  "truthy VNone = False"
| "truthy (VBool b) = b"
| "truthy (VInt i) = (i \<noteq> 0)"
| "truthy (VReal r) = (r \<noteq> 0)"
| "truthy (VStr s) = (s \<noteq> [])"
| "truthy (VList xs) = (xs \<noteq> [])"
| "truthy (VDict d) = (d \<noteq> [])"
| "truthy (VData fs) = True"
| "truthy (VAsDict v) = True"

text \<open>\<open>s.endswith(suffix)\<close> and \<open>s.endswith((suffix, ...))\<close>.\<close>

definition endswith :: "string \<Rightarrow> string \<Rightarrow> bool" where
  "endswith s suf = (length suf \<le> length s \<and> drop (length s - length suf) s = suf)"

definition endswith_any :: "string \<Rightarrow> string list \<Rightarrow> bool" where
  "endswith_any s sufs = list_ex (endswith s) sufs"

definition validate_persistence_file :: "string \<Rightarrow> error + string" where
  "validate_persistence_file v =
     (if endswith_any v [''.json'', ''.pickle''] then Inr v
      else Inl (Invalid ''Invalid file format. Please use `.json` or `.pickle`.''))"

text \<open>
  The schema library's validators: the type \<open>str\<close> accepts exactly strings, and
  \<open>vol.All\<close> passes the value through its validators from left to right, stopping at
  the first that raises. \<open>validate_persistence_file\<close> as a schema validator receives
  whatever the validators before it let through; \<open>endswith\<close> exists on strings only.
\<close>

definition vol_str :: validator where
  "vol_str v = (case v of VStr s \<Rightarrow> Inr v | _ \<Rightarrow> Inl (Invalid ''expected str''))"

fun vol_All :: "validator list \<Rightarrow> validator" where
  "vol_All [] v = Inr v"
| "vol_All (f # fs) v = (case f v of Inl e \<Rightarrow> Inl e | Inr v' \<Rightarrow> vol_All fs v')"

definition validate_persistence_file_value :: validator where
  "validate_persistence_file_value v =
     (case v of
        VStr s \<Rightarrow> (case validate_persistence_file s of Inl e \<Rightarrow> Inl e | Inr s' \<Rightarrow> Inr (VStr s'))
      | _ \<Rightarrow> Inl AttributeError)"

text \<open>The loop of \<open>_check_topic_exists\<close> over the existing configuration entries.\<close>

fun check_topic_loop :: "mysensors_const \<Rightarrow> pyval \<Rightarrow> pydict list \<Rightarrow> bool" where
  "check_topic_loop c topic [] = False"
| "check_topic_loop c topic (other_config # rest) =
     (if topic = dict_get other_config (KStr (CONF_TOPIC_IN_PREFIX c))
         \<or> topic = dict_get other_config (KStr (CONF_TOPIC_OUT_PREFIX c))
      then True
      else check_topic_loop c topic rest)"

definition check_topic_exists :: "mysensors_const \<Rightarrow> 's flow_env \<Rightarrow> pyval \<Rightarrow> bool" where
  "check_topic_exists c env topic = check_topic_loop c topic (current_entries env)"

text \<open>
  \<open>_validate_topic\<close> writes into the error dictionary it is given; the model returns
  the dictionary after the call. \<open>user_input[topic_key]\<close> is evaluated inside the
  \<open>try\<close>, whose handler catches \<open>vol.Invalid\<close> only: a missing key leaves the
  function as \<open>KeyError\<close>.
\<close>

definition validate_topic :: "mysensors_const \<Rightarrow> 's flow_env \<Rightarrow> pydict \<Rightarrow> errors \<Rightarrow> string \<Rightarrow> error + errors" where
  "validate_topic c env user_input errors topic_key =
     (case dict_item user_input (KStr topic_key) of
        Inl e \<Rightarrow> Inl e
      | Inr topic \<Rightarrow>
          if \<not> valid_subscribe_topic env topic
          then Inr (dict_set topic_key (''invalid_'' @ topic_key @ ''_topic'') errors)
          else if check_topic_exists c env topic
          then Inr (dict_set topic_key (''duplicate_'' @ topic_key) errors)
          else Inr errors)"

definition default_device :: "mysensors_const \<Rightarrow> string \<Rightarrow> string" where
  "default_device c gw_type =
     (if gw_type = CONF_GATEWAY_TYPE_SERIAL c then ''/dev/ttyACM0'' else ''127.0.0.1'')"

definition default_baud_rate :: "mysensors_const \<Rightarrow> string \<Rightarrow> int" where
  "default_baud_rate c gw_type =
     (if gw_type = CONF_GATEWAY_TYPE_SERIAL c then DEFAULT_BAUD_RATE else DEFAULT_TCP_PORT)"

text \<open>
  A schema dictionary maps markers (\<open>vol.Required\<close>, \<open>vol.Optional\<close>) to validators.
  Each item is a \<open>schema_field\<close>: the marker's key, kind, default and suggested value,
  and the validator. \<open>base_schema\<close> is the dictionary built first in
  \<open>_get_gateway_schema\<close>.
\<close>

definition get_common_schema :: "mysensors_const \<Rightarrow> pydict \<Rightarrow> schema_field list" where
  "get_common_schema c user_input =
     [\<lparr>field_key = CONF_VERSION c, field_required = True, field_default = None,
       field_suggested = Some (dict_get_default user_input (KStr (CONF_VERSION c)) (VStr DEFAULT_VERSION)),
       field_validator = vol_str\<rparr>,
      \<lparr>field_key = CONF_PERSISTENCE_FILE c, field_required = False,
       field_default = Some (dict_get_default user_input (KStr (CONF_PERSISTENCE_FILE c)) (VStr [])),
       field_suggested = None,
       field_validator = vol_All [vol_str, validate_persistence_file_value]\<rparr>]"

definition base_schema :: "mysensors_const \<Rightarrow> 's flow_env \<Rightarrow> pydict \<Rightarrow> string \<Rightarrow> schema_field list" where
  "base_schema c env user_input gw_type =
     [\<lparr>field_key = CONF_DEVICE c, field_required = True,
       field_default = Some (dict_get_default user_input (KStr (CONF_DEVICE c)) (VStr (default_device c gw_type))),
       field_suggested = None,
       field_validator = vol_str\<rparr>,
      \<lparr>field_key = CONF_BAUD_RATE c, field_required = False,
       field_default = Some (VInt (default_baud_rate c gw_type)),
       field_suggested = None,
       field_validator = positive_int env\<rparr>]"

definition get_gateway_schema :: "mysensors_const \<Rightarrow> 's flow_env \<Rightarrow> pydict \<Rightarrow> string \<Rightarrow> error + 's" where
  "get_gateway_schema c env user_input gw_type =
     vol_Schema env (base_schema c env user_input gw_type) (get_common_schema c user_input)"

text \<open>The loop of \<open>validate_common\<close> that looks for an entry of the same device.\<close>

fun same_device_loop :: "'s flow_env \<Rightarrow> string \<Rightarrow> pydict \<Rightarrow> pydict list \<Rightarrow> errors \<Rightarrow> errors" where
  "same_device_loop env gw_type user_input [] errors = errors"
| "same_device_loop env gw_type user_input (other_entry # rest) errors =
     (if is_same_device env gw_type user_input other_entry
      then dict_set ''base'' ''already_configured'' errors
      else same_device_loop env gw_type user_input rest errors)"

text \<open>
  The address check of \<open>validate_common\<close>, made for every gateway type but MQTT.
  \<open>user_input[CONF_DEVICE]\<close> is evaluated inside a \<open>try\<close> that catches
  \<open>vol.Invalid\<close> only.
\<close>

definition validate_device :: "mysensors_const \<Rightarrow> 's flow_env \<Rightarrow> string \<Rightarrow> errors \<Rightarrow> pydict \<Rightarrow> error + errors" where
  "validate_device c env gw_type errors user_input =
     (if gw_type \<noteq> CONF_GATEWAY_TYPE_MQTT c
      then (case dict_item user_input (KStr (CONF_DEVICE c)) of
              Inl e \<Rightarrow> Inl e
            | Inr dev \<Rightarrow>
                if (if gw_type = CONF_GATEWAY_TYPE_TCP c
                    then is_socket_address env dev else is_serial_port env dev)
                then Inr errors
                else Inr (dict_set (CONF_DEVICE c)
                           (if gw_type = CONF_GATEWAY_TYPE_TCP c
                            then ''invalid_ip'' else ''invalid_serial'') errors))
      else Inr errors)"

text \<open>The rest of \<open>validate_common\<close>: persistence file, duplicate device, connection.\<close>

definition validate_rest :: "mysensors_const \<Rightarrow> 's flow_env \<Rightarrow> string \<Rightarrow> errors \<Rightarrow> pydict \<Rightarrow> errors" where
  "validate_rest c env gw_type errors user_input =
     (let persistence_file = dict_get user_input (KStr (CONF_PERSISTENCE_FILE c));
          errors3 = (if truthy persistence_file
                     then validate_persistence_file_errors env persistence_file errors
                     else errors);
          errors4 = (if errors3 = []
                     then same_device_loop env gw_type user_input (current_entries env) errors3
                     else errors3)
      in (if errors4 = [] \<and> \<not> try_connect env gw_type user_input
          then dict_set ''base'' ''cannot_connect'' errors4
          else errors4))"

definition validate_common :: "mysensors_const \<Rightarrow> 's flow_env \<Rightarrow> string \<Rightarrow> errors \<Rightarrow> pydict \<Rightarrow> error + errors" where
  "validate_common c env gw_type errors user_input =
     (case dict_item user_input (KStr (CONF_VERSION c)) of
        Inl e \<Rightarrow> Inl e
      | Inr version \<Rightarrow>
          (case validate_device c env gw_type (dict_update errors (validate_version env version)) user_input of
             Inl e \<Rightarrow> Inl e
           | Inr errors2 \<Rightarrow> Inr (validate_rest c env gw_type errors2 user_input)))"

text \<open>
  The validation of a submitted input in \<open>_async_create_gateway_entry\<close>: both topic
  checks, then \<open>validate_common\<close>, all on one error dictionary. \<open>validate_common\<close>
  returns the dictionary it was given, so the \<open>errors.update\<close> around the call changes
  nothing.
\<close>

definition run_validation :: "mysensors_const \<Rightarrow> 's flow_env \<Rightarrow> string \<Rightarrow> pydict \<Rightarrow> error + errors" where
  "run_validation c env gw_type user_input =
     (case validate_topic c env user_input [] (CONF_TOPIC_IN_PREFIX c) of
        Inl e \<Rightarrow> Inl e
      | Inr errors1 \<Rightarrow>
          (case validate_topic c env user_input errors1 (CONF_TOPIC_OUT_PREFIX c) of
             Inl e \<Rightarrow> Inl e
           | Inr errors2 \<Rightarrow> validate_common c env gw_type errors2 user_input))"

text \<open>An f-string of one value: a string stands for itself, anything else is rendered by \<open>str\<close>.\<close>

definition format_value :: "'s flow_env \<Rightarrow> pyval \<Rightarrow> string" where
  "format_value env v = (case v of VStr s \<Rightarrow> s | _ \<Rightarrow> py_str env v)"

definition async_create_entry :: "mysensors_const \<Rightarrow> 's flow_env \<Rightarrow> pydict \<Rightarrow> string \<Rightarrow> error + 's FlowResult" where
  "async_create_entry c env user_input gw_type =
     (case dict_item user_input (KStr (CONF_DEVICE c)) of
        Inl e \<Rightarrow> Inl e
      | Inr dev \<Rightarrow>
          Inr (CreateEntry (format_value env dev)
                 (dict_set (KStr (CONF_GATEWAY_TYPE c)) (VStr gw_type) user_input)))"

definition show_gateway_form :: "mysensors_const \<Rightarrow> 's flow_env \<Rightarrow> pydict \<Rightarrow> string \<Rightarrow> string \<Rightarrow> errors \<Rightarrow> error + 's FlowResult" where
  "show_gateway_form c env user_input gw_type step_id errors =
     (case get_gateway_schema c env user_input gw_type of
        Inl e \<Rightarrow> Inl e
      | Inr schema \<Rightarrow> Inr (ShowForm step_id schema errors))"

definition async_create_gateway_entry :: "mysensors_const \<Rightarrow> 's flow_env \<Rightarrow> pydict option \<Rightarrow> string \<Rightarrow> string \<Rightarrow> error + 's FlowResult" where
  "async_create_gateway_entry c env user_input gw_type step_id =
     (case user_input of
        None \<Rightarrow> show_gateway_form c env [] gw_type step_id []
      | Some ui \<Rightarrow>
          (case run_validation c env gw_type ui of
             Inl e \<Rightarrow> Inl e
           | Inr errors \<Rightarrow>
               if errors = [] then async_create_entry c env ui gw_type
               else show_gateway_form c env ui gw_type step_id errors))"

definition async_step_user :: "'s FlowResult" where
  "async_step_user = ShowMenu ''select_gateway_type'' [''gw_serial'', ''gw_tcp'', ''gw_mqtt'']"

definition async_step_gw_serial :: "mysensors_const \<Rightarrow> 's flow_env \<Rightarrow> pydict option \<Rightarrow> error + 's FlowResult" where
  "async_step_gw_serial c env user_input =
     async_create_gateway_entry c env user_input (CONF_GATEWAY_TYPE_SERIAL c) ''gw_serial''"

definition async_step_gw_tcp :: "mysensors_const \<Rightarrow> 's flow_env \<Rightarrow> pydict option \<Rightarrow> error + 's FlowResult" where
  "async_step_gw_tcp c env user_input =
     async_create_gateway_entry c env user_input (CONF_GATEWAY_TYPE_TCP c) ''gw_tcp''"

definition async_step_gw_mqtt :: "mysensors_const \<Rightarrow> 's flow_env \<Rightarrow> pydict option \<Rightarrow> error + 's FlowResult" where
  "async_step_gw_mqtt c env user_input =
     (if MQTT_COMPONENT c \<notin> set (components env) then Inr (Abort ''mqtt_required'')
      else async_create_gateway_entry c env user_input (CONF_GATEWAY_TYPE_MQTT c) ''gw_mqtt'')"

section \<open>ZHA diagnostics\<close>

text \<open>
  The key names of the integration's constants module, of the host's constants and of
  the radio library's configuration are not part of the sources at hand; they are
  parameters. \<open>REDACTED\<close> is the value that the host's redaction helper puts in place
  of a sensitive value.
\<close>

record zha_const =
  ATTR_ATTRIBUTE_NAME :: string
  ATTR_DEVICE_TYPE :: string
  ATTR_IEEE :: string
  ATTR_IN_CLUSTERS :: string
  ATTR_OUT_CLUSTERS :: string
  ATTR_PROFILE_ID :: string
  ATTR_VALUE :: string
  CONF_ALARM_MASTER_CODE :: string
  UNKNOWN :: string
  CONF_ID :: string
  CONF_NAME :: string
  CONF_UNIQUE_ID :: string
  CONF_NWK_EXTENDED_PAN_ID :: string
  REDACTED :: pyval

definition KEYS_TO_REDACT :: "zha_const \<Rightarrow> string set" where
  "KEYS_TO_REDACT zc =
     {ATTR_IEEE zc, CONF_UNIQUE_ID zc, CONF_ALARM_MASTER_CODE zc, ''network_key'',
      CONF_NWK_EXTENDED_PAN_ID zc, ''partner_ieee''}"

definition ATTRIBUTES :: string where
  "ATTRIBUTES = ''attributes''"

definition CLUSTER_DETAILS :: string where
  "CLUSTER_DETAILS = ''cluster_details''"

definition UNSUPPORTED_ATTRIBUTES :: string where
  "UNSUPPORTED_ATTRIBUTES = ''unsupported_attributes''"

text \<open>
  \<open>shallow_asdict\<close>: a dataclass instance becomes the dictionary of its fields, each
  converted in turn; an object with \<open>as_dict()\<close> becomes what that call returns; anything
  else is returned as it is. The field names of a dataclass are pairwise distinct, so
  storing them one by one yields them in declaration order.
\<close>

fun shallow_asdict :: "pyval \<Rightarrow> pyval" where
  "shallow_asdict (VData flds) = VDict (map (\<lambda>(name, v). (KStr name, shallow_asdict v)) flds)"
| "shallow_asdict (VAsDict d) = d"
| "shallow_asdict obj = obj"

text \<open>
  Modelled from the spec: \<open>async_redact_data\<close> belongs to the host's diagnostics
  helpers, which are not part of the sources at hand. The specification says of the
  exporter that it serializes the data "redacting sensitive fields": in a dictionary the
  value of every key of \<open>to_redact\<close> is replaced by the redaction marker, and the values
  of the other keys, and the items of a list, are redacted in the same way. The result
  is a new object; the argument is left as it was.
\<close>

definition is_redact_key :: "string set \<Rightarrow> pykey \<Rightarrow> bool" where
  "is_redact_key to_redact k = (case k of KStr s \<Rightarrow> s \<in> to_redact | KInt i \<Rightarrow> False)"

fun async_redact_data :: "pyval \<Rightarrow> string set \<Rightarrow> pyval \<Rightarrow> pyval" where
  "async_redact_data r to_redact (VDict d) =
     VDict (map (\<lambda>(k, v). (k, if is_redact_key to_redact k then r else async_redact_data r to_redact v)) d)"
| "async_redact_data r to_redact (VList xs) = VList (map (async_redact_data r to_redact) xs)"
| "async_redact_data r to_redact v = v"

text \<open>
  What the claim asks of a redacted value: at every nesting level of dictionaries and
  lists, the value of each sensitive key is the redaction marker.
\<close>

fun redacted_everywhere :: "pyval \<Rightarrow> string set \<Rightarrow> pyval \<Rightarrow> bool" where
  "redacted_everywhere r to_redact (VDict d) =
     list_all (\<lambda>(k, v). if is_redact_key to_redact k then v = r else redacted_everywhere r to_redact v) d"
| "redacted_everywhere r to_redact (VList xs) = list_all (redacted_everywhere r to_redact) xs"
| "redacted_everywhere r to_redact v = True"

text \<open>
  The format \<open>04x\<close> of a non-negative integer: its lowercase hexadecimal digits, padded
  with zeros on the left to a width of at least four.
\<close>

definition hex_digit :: "nat \<Rightarrow> char" where
  "hex_digit d = ''0123456789abcdef'' ! d"

function to_hex :: "nat \<Rightarrow> string" where
  "to_hex n = (if n < 16 then [hex_digit n] else to_hex (n div 16) @ [hex_digit (n mod 16)])"
  by pat_completeness auto
termination
  by (relation "measure id") auto

declare to_hex.simps [simp del]

definition format_04x :: "nat \<Rightarrow> string" where
  "format_04x n = replicate (4 - length (to_hex n)) (CHR ''0'') @ to_hex n"

definition hex_key :: "nat \<Rightarrow> pykey" where
  "hex_key n = KStr (''0x'' @ format_04x n)"

text \<open>The value of a string of hexadecimal digits, to read a rendered key back.\<close>

definition digit_value :: "char \<Rightarrow> nat" where
  "digit_value ch = length (takeWhile (\<lambda>x. x \<noteq> ch) ''0123456789abcdef'')"

definition hex_value :: "string \<Rightarrow> nat" where
  "hex_value s = foldl (\<lambda>acc ch. 16 * acc + digit_value ch) 0 s"

text \<open>
  The records of the radio library. Identifiers are unsigned integers. An attribute
  definition has an id and a name. A cluster has its endpoint attribute name, its table
  of attribute definitions by id, the cache read by \<open>cluster.get(name)\<close> (\<open>None\<close> for a
  value that is not cached), the list of unsupported attributes (ids or names) and
  \<open>find_attribute\<close>. An endpoint has a profile id and a device type, either of which
  may be \<open>None\<close>, and its input and output clusters by id. \<open>PROFILES\<close> maps a profile
  id to a profile, given by the names of its device types.
\<close>

record zcl_attribute =
  attr_id :: nat
  attr_name :: string

record cluster =
  ep_attribute :: pyval
  attributes :: "(nat \<times> zcl_attribute) list"
  cluster_get :: "string \<Rightarrow> pyval"
  unsupported_attributes :: "pykey list"
  find_attribute :: "pykey \<Rightarrow> zcl_attribute"

record endpoint =
  profile_id :: "nat option"
  device_type :: "nat option"
  in_clusters :: "(nat \<times> cluster) list"
  out_clusters :: "(nat \<times> cluster) list"

type_synonym profiles = "nat \<Rightarrow> (nat \<Rightarrow> string) option"

text \<open>
  A ZHA device: the endpoints of \<open>zha_device.device\<close> by id, and the dictionary object
  that the attribute \<open>zha_device.zha_device_info\<close> yields.
\<close>

record zha_device =
  endpoints :: "(nat \<times> endpoint) list"
  zha_device_info :: pydict

definition opt_int :: "nat option \<Rightarrow> pyval" where
  "opt_int x = (case x of None \<Rightarrow> VNone | Some n \<Rightarrow> VInt (int n))"

text \<open>\<open>PROFILES.get(endpoint.profile_id)\<close>; \<open>None\<close> is not a key of the table.\<close>

definition profiles_get :: "profiles \<Rightarrow> nat option \<Rightarrow> (nat \<Rightarrow> string) option" where
  "profiles_get PROFILES pid = (case pid of None \<Rightarrow> None | Some p \<Rightarrow> PROFILES p)"

definition attributes_section :: "zha_const \<Rightarrow> cluster \<Rightarrow> pydict" where
  "attributes_section zc cl =
     dict_of (map (\<lambda>(aid, attr_def).
                (hex_key aid,
                 VDict (dict_of [(KStr (ATTR_ATTRIBUTE_NAME zc), VStr (attr_name attr_def)),
                                 (KStr (ATTR_VALUE zc), cluster_get cl (attr_name attr_def))])))
            (filter (\<lambda>(aid, attr_def). cluster_get cl (attr_name attr_def) \<noteq> VNone)
               (attributes cl)))"

definition unsupported_section :: "zha_const \<Rightarrow> cluster \<Rightarrow> pydict" where
  "unsupported_section zc cl =
     dict_of (map (\<lambda>u_attr.
                (hex_key (attr_id (find_attribute cl u_attr)),
                 VDict (dict_of [(KStr (ATTR_ATTRIBUTE_NAME zc),
                                  VStr (attr_name (find_attribute cl u_attr)))])))
            (unsupported_attributes cl))"

definition get_cluster_attr_data :: "zha_const \<Rightarrow> cluster \<Rightarrow> pydict" where
  "get_cluster_attr_data zc cl =
     dict_of [(KStr ATTRIBUTES, VDict (attributes_section zc cl)),
              (KStr UNSUPPORTED_ATTRIBUTES, VDict (unsupported_section zc cl))]"

definition cluster_entry :: "zha_const \<Rightarrow> cluster \<Rightarrow> pydict" where
  "cluster_entry zc cl =
     dict_of ((KStr ''endpoint_attribute'', ep_attribute cl) # get_cluster_attr_data zc cl)"

definition clusters_section :: "zha_const \<Rightarrow> (nat \<times> cluster) list \<Rightarrow> pydict" where
  "clusters_section zc clusters =
     dict_of (map (\<lambda>(cluster_id, cl). (hex_key cluster_id, VDict (cluster_entry zc cl))) clusters)"

definition endpoint_key :: "zha_const \<Rightarrow> profiles \<Rightarrow> endpoint \<Rightarrow> string" where
  "endpoint_key zc PROFILES ep =
     (case profiles_get PROFILES (profile_id ep) of
        None \<Rightarrow> UNKNOWN zc
      | Some profile \<Rightarrow>
          (case device_type ep of None \<Rightarrow> UNKNOWN zc | Some dt \<Rightarrow> profile dt))"

definition endpoint_details :: "zha_const \<Rightarrow> profiles \<Rightarrow> endpoint \<Rightarrow> pydict" where
  "endpoint_details zc PROFILES ep =
     dict_of [(KStr (ATTR_DEVICE_TYPE zc),
               VDict (dict_of [(KStr (CONF_NAME zc), VStr (endpoint_key zc PROFILES ep)),
                               (KStr (CONF_ID zc), opt_int (device_type ep))])),
              (KStr (ATTR_PROFILE_ID zc), opt_int (profile_id ep)),
              (KStr (ATTR_IN_CLUSTERS zc), VDict (clusters_section zc (in_clusters ep))),
              (KStr (ATTR_OUT_CLUSTERS zc), VDict (clusters_section zc (out_clusters ep)))]"

text \<open>The loop of \<open>get_endpoint_cluster_attr_data\<close> with its dictionary \<open>cluster_details\<close>.\<close>

fun endpoint_loop :: "zha_const \<Rightarrow> profiles \<Rightarrow> (nat \<times> endpoint) list \<Rightarrow> pydict \<Rightarrow> pydict" where
  "endpoint_loop zc PROFILES [] cluster_details = cluster_details"
| "endpoint_loop zc PROFILES ((ep_id, ep) # rest) cluster_details =
     (if ep_id = 0 then endpoint_loop zc PROFILES rest cluster_details
      else endpoint_loop zc PROFILES rest
             (dict_set (KInt (int ep_id)) (VDict (endpoint_details zc PROFILES ep)) cluster_details))"

definition get_endpoint_cluster_attr_data :: "zha_const \<Rightarrow> profiles \<Rightarrow> zha_device \<Rightarrow> pydict" where
  "get_endpoint_cluster_attr_data zc PROFILES zha_dev = endpoint_loop zc PROFILES (endpoints zha_dev) []"

text \<open>
  \<open>async_get_device_diagnostics\<close> stores the cluster details in the dictionary it got
  from \<open>zha_device.zha_device_info\<close> and returns the redaction of that dictionary. The
  model returns the result together with the device after the call.
\<close>

definition async_get_device_diagnostics :: "zha_const \<Rightarrow> profiles \<Rightarrow> zha_device \<Rightarrow> pyval \<times> zha_device" where
  "async_get_device_diagnostics zc PROFILES zha_dev =
     (let device_info = dict_set (KStr CLUSTER_DETAILS)
                          (VDict (get_endpoint_cluster_attr_data zc PROFILES zha_dev))
                          (zha_device_info zha_dev)
      in (async_redact_data (REDACTED zc) (KEYS_TO_REDACT zc) (VDict device_info),
          zha_dev\<lparr>zha_device_info := device_info\<rparr>))"

text \<open>
  The energy scan of the coordinator is a dictionary from channel to energy; each
  energy becomes \<open>100 * energy / 255\<close>.
\<close>

definition energy_scan_section :: "(int \<times> real) list \<Rightarrow> pydict" where
  "energy_scan_section energy_scan =
     dict_of (map (\<lambda>(channel, energy). (KInt channel, VReal (100 * energy / 255))) energy_scan)"

text \<open>
  The inputs of the config-entry diagnostics: the YAML configuration, the dictionary of
  the config entry, the state of the application controller, the result of its energy
  scan, and the installed version of each radio library.
\<close>

record diagnostics_input =
  yaml_config :: pyval
  config_entry_dict :: pyval
  app_state :: pyval
  energy_scan :: "(int \<times> real) list"
  version :: "string \<Rightarrow> string"

definition config_entry_payload :: "diagnostics_input \<Rightarrow> pydict" where
  "config_entry_payload inp =
     dict_of [(KStr ''config'', yaml_config inp),
              (KStr ''config_entry'', config_entry_dict inp),
              (KStr ''application_state'', shallow_asdict (app_state inp)),
              (KStr ''energy_scan'', VDict (energy_scan_section (energy_scan inp))),
              (KStr ''versions'',
               VDict (dict_of [(KStr ''bellows'', VStr (version inp ''bellows'')),
                               (KStr ''zigpy'', VStr (version inp ''zigpy'')),
                               (KStr ''zigpy_deconz'', VStr (version inp ''zigpy-deconz'')),
                               (KStr ''zigpy_xbee'', VStr (version inp ''zigpy-xbee'')),
                               (KStr ''zigpy_znp'', VStr (version inp ''zigpy_znp'')),
                               (KStr ''zigpy_zigate'', VStr (version inp ''zigpy-zigate'')),
                               (KStr ''zhaquirks'', VStr (version inp ''zha-quirks''))]))]"

definition async_get_config_entry_diagnostics :: "zha_const \<Rightarrow> diagnostics_input \<Rightarrow> pyval" where
  "async_get_config_entry_diagnostics zc inp =
     async_redact_data (REDACTED zc) (KEYS_TO_REDACT zc) (VDict (config_entry_payload inp))"

text \<open>
  A sample assignment of the constants and a sample host, for evaluating the flow on
  concrete inputs: every check of the host accepts, no entry exists yet, and the MQTT
  component is loaded.
\<close>

definition example_const :: mysensors_const where
  "example_const =
     \<lparr>CONF_BAUD_RATE = ''baud_rate'', CONF_DEVICE = ''device'',
      CONF_GATEWAY_TYPE = ''gateway_type'', CONF_GATEWAY_TYPE_MQTT = ''MQTT'',
      CONF_GATEWAY_TYPE_SERIAL = ''Serial'', CONF_GATEWAY_TYPE_TCP = ''TCP'',
      CONF_PERSISTENCE_FILE = ''persistence_file'',
      CONF_TOPIC_IN_PREFIX = ''topic_in_prefix'', CONF_TOPIC_OUT_PREFIX = ''topic_out_prefix'',
      CONF_VERSION = ''version'', MQTT_COMPONENT = ''mqtt''\<rparr>"

definition example_env :: "unit flow_env" where
  "example_env =
     \<lparr>valid_subscribe_topic = (\<lambda>v. case v of VStr s \<Rightarrow> s \<noteq> [] | _ \<Rightarrow> False),
      current_entries = [],
      validate_version = (\<lambda>v. []),
      is_socket_address = (\<lambda>v. True),
      is_serial_port = (\<lambda>v. True),
      validate_persistence_file_errors = (\<lambda>p e. e),
      is_same_device = (\<lambda>g u e. False),
      try_connect = (\<lambda>g u. True),
      components = [''mqtt''],
      positive_int = Inr,
      vol_Schema = (\<lambda>b k. Inr ()),
      py_str = (\<lambda>v. ''object'')\<rparr>"

text \<open>
  Two submissions: one to the MQTT step with every key the validation reads, and one to
  the serial step with the fields of the serial form.
\<close>

definition example_mqtt_input :: pydict where
  "example_mqtt_input =
     [(KStr ''device'', VStr ''mqtt''), (KStr ''version'', VStr ''2.3''),
      (KStr ''topic_in_prefix'', VStr ''mygateway-out''),
      (KStr ''topic_out_prefix'', VStr ''mygateway-in'')]"

definition example_serial_input :: pydict where
  "example_serial_input =
     [(KStr ''device'', VStr ''/dev/ttyACM0''), (KStr ''baud_rate'', VInt 115200),
      (KStr ''version'', VStr ''2.3'')]"

text \<open>
  Sample data for the diagnostics: the constants, a profile table with one profile, an
  on/off cluster with one cached attribute out of two, a device with endpoint 0 and
  endpoint 1, and the inputs of the config-entry diagnostics.
\<close>

definition example_zha_const :: zha_const where
  "example_zha_const =
     \<lparr>ATTR_ATTRIBUTE_NAME = ''attribute_name'', ATTR_DEVICE_TYPE = ''device_type'',
      ATTR_IEEE = ''ieee'', ATTR_IN_CLUSTERS = ''in_clusters'',
      ATTR_OUT_CLUSTERS = ''out_clusters'', ATTR_PROFILE_ID = ''profile_id'',
      ATTR_VALUE = ''value'', CONF_ALARM_MASTER_CODE = ''alarm_master_code'',
      UNKNOWN = ''unknown'', CONF_ID = ''id'', CONF_NAME = ''name'',
      CONF_UNIQUE_ID = ''unique_id'', CONF_NWK_EXTENDED_PAN_ID = ''extended_pan_id'',
      REDACTED = VStr ''**REDACTED**''\<rparr>"

definition example_profiles :: profiles where
  "example_profiles p =
     (if p = 260 then Some (\<lambda>dt. if dt = 256 then ''ON_OFF_LIGHT'' else ''undefined'') else None)"

definition example_cluster :: cluster where
  "example_cluster =
     \<lparr>ep_attribute = VStr ''on_off'',
      attributes = [(0, \<lparr>attr_id = 0, attr_name = ''on_off''\<rparr>),
                    (16384, \<lparr>attr_id = 16384, attr_name = ''global_scene_control''\<rparr>)],
      cluster_get = (\<lambda>name. if name = ''on_off'' then VBool True else VNone),
      unsupported_attributes = [],
      find_attribute = (\<lambda>u. \<lparr>attr_id = 0, attr_name = ''on_off''\<rparr>)\<rparr>"

definition example_zdo_endpoint :: endpoint where
  "example_zdo_endpoint =
     \<lparr>profile_id = None, device_type = None, in_clusters = [], out_clusters = []\<rparr>"

definition example_endpoint :: endpoint where
  "example_endpoint =
     \<lparr>profile_id = Some 260, device_type = Some 256,
      in_clusters = [(6, example_cluster)], out_clusters = []\<rparr>"

definition example_device :: zha_device where
  "example_device =
     \<lparr>endpoints = [(0, example_zdo_endpoint), (1, example_endpoint)],
      zha_device_info = [(KStr ''ieee'', VStr ''00:0d:6f:00:0a:90:69:e7''), (KStr ''nwk'', VInt 9536)]\<rparr>"

definition example_diagnostics_input :: diagnostics_input where
  "example_diagnostics_input =
     \<lparr>yaml_config = VDict [],
      config_entry_dict = VDict [(KStr ''unique_id'', VStr ''00:0d:6f:00:0a:90:69:e7'')],
      app_state = VData [(''node_info'', VData [(''ieee'', VStr ''00:0d:6f:00:0a:90:69:e7''), (''nwk'', VInt 0)])],
      energy_scan = [(11, 51), (12, 255), (26, 0)],
      version = (\<lambda>package. ''0.0.1'')\<rparr>"

section \<open>Properties of the XS1 switch platform\<close>

lemma setup_loop_filter:
  "setup_loop api actuators acc =
     acc @ map XS1SwitchEntity (filter (\<lambda>a. act_type api a = SWITCH \<or> act_type api a = DIMMER) actuators)"
  by (induction actuators arbitrary: acc) simp_all

text \<open>
  Claim C4. \<open>setup_platform\<close> adds exactly one entity for each actuator of type SWITCH or
  DIMMER, in the order of the actuator list, and none for an actuator of another type:
  the list handed to \<open>add_entities\<close> is the list of the switch and dimmer actuators,
  each wrapped in an entity.
\<close>

theorem setup_platform_switches_and_dimmers:
  "setup_platform api actuators =
     map XS1SwitchEntity (filter (\<lambda>a. act_type api a \<in> {SWITCH, DIMMER}) actuators)"
proof -
  have "(\<lambda>a. act_type api a = SWITCH \<or> act_type api a = DIMMER) = (\<lambda>a. act_type api a \<in> {SWITCH, DIMMER})"
    by auto
  then show ?thesis
    by (simp add: setup_platform_def setup_loop_filter)
qed

text \<open>
  Claim C5. An entity is toggled through its actuator: \<open>turn_on\<close> leaves the entity
  holding the actuator after the client's \<open>turn_on\<close>, \<open>turn_off\<close> the actuator after the
  client's \<open>turn_off\<close>; the entity's name is the actuator's name; \<open>is_on\<close> holds exactly
  when the actuator's value equals 100.
\<close>

theorem xs1_entity_toggles_actuator:
  "device (turn_on api (XS1SwitchEntity a)) = act_turn_on api a \<and>
   device (turn_off api (XS1SwitchEntity a)) = act_turn_off api a \<and>
   entity_name api (XS1SwitchEntity a) = act_name api a \<and>
   (is_on api (XS1SwitchEntity a) \<longleftrightarrow> act_value api a = 100)"
  by (simp add: turn_on_def turn_off_def entity_name_def is_on_def)

section \<open>Properties of the MySensors configuration flow\<close>

lemma endswith_iff: "endswith s suf \<longleftrightarrow> (\<exists>p. s = p @ suf)"
proof
  assume "endswith s suf"
  then have "s = take (length s - length suf) s @ suf"
    by (metis append_take_drop_id endswith_def)
  then show "\<exists>p. s = p @ suf" ..
next
  assume "\<exists>p. s = p @ suf"
  then show "endswith s suf" by (auto simp: endswith_def)
qed

lemma validate_persistence_file_cases:
  "validate_persistence_file v =
     (if (\<exists>p. v = p @ ''.json'') \<or> (\<exists>p. v = p @ ''.pickle'') then Inr v
      else Inl (Invalid ''Invalid file format. Please use `.json` or `.pickle`.''))"
  unfolding validate_persistence_file_def endswith_any_def
  by (simp add: endswith_iff)

text \<open>
  Claim C7. For every string, \<open>validate_persistence_file\<close> returns the string itself
  exactly when it ends in \<open>.json\<close> or \<open>.pickle\<close>, and raises \<open>vol.Invalid\<close> otherwise;
  it never returns anything but its argument. The common schema has a field for the
  persistence-file key whose validator runs \<open>validate_persistence_file\<close> on every string.
\<close>

theorem validate_persistence_file_suffix:
  "(validate_persistence_file v = Inr v \<longleftrightarrow> (\<exists>p. v = p @ ''.json'') \<or> (\<exists>p. v = p @ ''.pickle'')) \<and>
   (\<not> ((\<exists>p. v = p @ ''.json'') \<or> (\<exists>p. v = p @ ''.pickle'')) \<longrightarrow>
      (\<exists>msg. validate_persistence_file v = Inl (Invalid msg))) \<and>
   (\<forall>r. validate_persistence_file v = Inr r \<longrightarrow> r = v) \<and>
   (\<exists>f \<in> set (get_common_schema c user_input).
      field_key f = CONF_PERSISTENCE_FILE c \<and>
      field_validator f (VStr v) =
        (case validate_persistence_file v of Inl e \<Rightarrow> Inl e | Inr r \<Rightarrow> Inr (VStr r)))"
proof -
  have 1: "validate_persistence_file v = Inr v \<longleftrightarrow> (\<exists>p. v = p @ ''.json'') \<or> (\<exists>p. v = p @ ''.pickle'')"
    by (simp only: validate_persistence_file_cases split: if_split) simp
  have 2: "\<not> ((\<exists>p. v = p @ ''.json'') \<or> (\<exists>p. v = p @ ''.pickle'')) \<longrightarrow>
      (\<exists>msg. validate_persistence_file v = Inl (Invalid msg))"
    by (simp only: validate_persistence_file_cases split: if_split) simp
  have 3: "\<forall>r. validate_persistence_file v = Inr r \<longrightarrow> r = v"
    by (simp add: validate_persistence_file_def)
  have 4: "vol_All [vol_str, validate_persistence_file_value] (VStr v) =
        (case validate_persistence_file v of Inl e \<Rightarrow> Inl e | Inr r \<Rightarrow> Inr (VStr r))"
    by (simp add: vol_str_def validate_persistence_file_value_def split: sum.splits)
  have 5: "\<exists>f \<in> set (get_common_schema c user_input).
      field_key f = CONF_PERSISTENCE_FILE c \<and>
      field_validator f (VStr v) =
        (case validate_persistence_file v of Inl e \<Rightarrow> Inl e | Inr r \<Rightarrow> Inr (VStr r))"
    unfolding get_common_schema_def using 4 by simp
  from 1 2 3 5 show ?thesis by blast
qed

theorem validate_persistence_file_suffix_witness:
  "validate_persistence_file ''mysensors1.json'' = Inr ''mysensors1.json'' \<and>
   validate_persistence_file ''store.pickle'' = Inr ''store.pickle'' \<and>
   (\<exists>msg. validate_persistence_file ''notes.txt'' = Inl (Invalid msg))"
proof -
  have a: "''mysensors1.json'' = ''mysensors1'' @ ''.json''" by simp
  have b: "''store.pickle'' = ''store'' @ ''.pickle''" by simp
  have c: "\<not> ((\<exists>p. ''notes.txt'' = p @ ''.json'') \<or> (\<exists>p. ''notes.txt'' = p @ ''.pickle''))"
    by (simp add: endswith_iff [symmetric] endswith_def)
  from validate_persistence_file_suffix [of "''mysensors1.json''"] a
  have 1: "validate_persistence_file ''mysensors1.json'' = Inr ''mysensors1.json''" by blast
  from validate_persistence_file_suffix [of "''store.pickle''"] b
  have 2: "validate_persistence_file ''store.pickle'' = Inr ''store.pickle''" by blast
  from validate_persistence_file_suffix [of "''notes.txt''"] c
  have 3: "\<exists>msg. validate_persistence_file ''notes.txt'' = Inl (Invalid msg)" by blast
  from 1 2 3 show ?thesis by blast
qed

lemma map_of_dict_set: "map_of (dict_set k v d) = (map_of d)(k \<mapsto> v)"
  by (simp add: dict_set_def update_conv')

text \<open>
  Claim C2. When the validation of a submitted input ends with an empty error dictionary
  and the input has a device field, \<open>_async_create_gateway_entry\<close> returns the creation
  of an entry whose title is the device field (a string device is its own title) and whose
  data is the input with the gateway-type key set to the gateway type: every other key
  keeps its value. When the validation ends with a non-empty error dictionary, or
  raises, the result is not the creation of an entry. The serial and TCP steps are this
  function at their gateway type, and so is the MQTT step once the MQTT component is
  loaded.
\<close>

theorem gateway_entry_created_when_valid:
  "(run_validation c env gw_type user_input = Inr [] \<and>
    map_of user_input (KStr (CONF_DEVICE c)) = Some dev \<longrightarrow>
      async_create_gateway_entry c env (Some user_input) gw_type step_id =
        Inr (CreateEntry (format_value env dev)
               (dict_set (KStr (CONF_GATEWAY_TYPE c)) (VStr gw_type) user_input)) \<and>
      map_of (dict_set (KStr (CONF_GATEWAY_TYPE c)) (VStr gw_type) user_input) =
        (map_of user_input)(KStr (CONF_GATEWAY_TYPE c) \<mapsto> VStr gw_type)) \<and>
   format_value env (VStr s) = s \<and>
   (\<forall>errors. run_validation c env gw_type user_input = Inr errors \<and> errors \<noteq> [] \<longrightarrow>
      (\<forall>title data. async_create_gateway_entry c env (Some user_input) gw_type step_id
         \<noteq> Inr (CreateEntry title data))) \<and>
   (\<forall>e. run_validation c env gw_type user_input = Inl e \<longrightarrow>
      async_create_gateway_entry c env (Some user_input) gw_type step_id = Inl e) \<and>
   async_step_gw_serial c env (Some user_input) =
     async_create_gateway_entry c env (Some user_input) (CONF_GATEWAY_TYPE_SERIAL c) ''gw_serial'' \<and>
   async_step_gw_tcp c env (Some user_input) =
     async_create_gateway_entry c env (Some user_input) (CONF_GATEWAY_TYPE_TCP c) ''gw_tcp'' \<and>
   (MQTT_COMPONENT c \<in> set (components env) \<longrightarrow>
      async_step_gw_mqtt c env (Some user_input) =
        async_create_gateway_entry c env (Some user_input) (CONF_GATEWAY_TYPE_MQTT c) ''gw_mqtt'')"
proof -
  have created: "run_validation c env gw_type user_input = Inr [] \<and>
    map_of user_input (KStr (CONF_DEVICE c)) = Some dev \<longrightarrow>
      async_create_gateway_entry c env (Some user_input) gw_type step_id =
        Inr (CreateEntry (format_value env dev)
               (dict_set (KStr (CONF_GATEWAY_TYPE c)) (VStr gw_type) user_input))"
    by (simp add: async_create_gateway_entry_def async_create_entry_def dict_item_def)
  have shown: "\<forall>errors. run_validation c env gw_type user_input = Inr errors \<and> errors \<noteq> [] \<longrightarrow>
      (\<forall>title data. async_create_gateway_entry c env (Some user_input) gw_type step_id
         \<noteq> Inr (CreateEntry title data))"
    by (auto simp: async_create_gateway_entry_def show_gateway_form_def split: sum.splits)
  have raised: "\<forall>e. run_validation c env gw_type user_input = Inl e \<longrightarrow>
      async_create_gateway_entry c env (Some user_input) gw_type step_id = Inl e"
    by (simp add: async_create_gateway_entry_def)
  have title: "format_value env (VStr s) = s"
    by (simp add: format_value_def)
  have steps: "async_step_gw_serial c env (Some user_input) =
     async_create_gateway_entry c env (Some user_input) (CONF_GATEWAY_TYPE_SERIAL c) ''gw_serial'' \<and>
   async_step_gw_tcp c env (Some user_input) =
     async_create_gateway_entry c env (Some user_input) (CONF_GATEWAY_TYPE_TCP c) ''gw_tcp'' \<and>
   (MQTT_COMPONENT c \<in> set (components env) \<longrightarrow>
      async_step_gw_mqtt c env (Some user_input) =
        async_create_gateway_entry c env (Some user_input) (CONF_GATEWAY_TYPE_MQTT c) ''gw_mqtt'')"
    by (simp add: async_step_gw_serial_def async_step_gw_tcp_def async_step_gw_mqtt_def)
  have data: "map_of (dict_set (KStr (CONF_GATEWAY_TYPE c)) (VStr gw_type) user_input) =
        (map_of user_input)(KStr (CONF_GATEWAY_TYPE c) \<mapsto> VStr gw_type)"
    by (rule map_of_dict_set)
  show ?thesis
    apply (intro conjI impI)
    using created apply simp
    using data apply simp
    using title apply simp
    using shown apply simp
    using raised apply simp
    using steps apply simp
    using steps apply simp
    using steps apply simp
    done
qed

lemma example_validation: "run_validation example_const example_env ''MQTT'' example_mqtt_input = Inr []"
  by (simp add: run_validation_def validate_topic_def validate_common_def validate_device_def
      validate_rest_def dict_item_def dict_get_def dict_update_def check_topic_exists_def
      example_const_def example_env_def example_mqtt_input_def)

theorem gateway_entry_created_when_valid_witness:
  "async_create_gateway_entry example_const example_env (Some example_mqtt_input) ''MQTT'' ''gw_mqtt'' =
     Inr (CreateEntry ''mqtt''
           [(KStr ''device'', VStr ''mqtt''), (KStr ''version'', VStr ''2.3''),
            (KStr ''topic_in_prefix'', VStr ''mygateway-out''),
            (KStr ''topic_out_prefix'', VStr ''mygateway-in''),
            (KStr ''gateway_type'', VStr ''MQTT'')])"
proof -
  have dev: "map_of example_mqtt_input (KStr (CONF_DEVICE example_const)) = Some (VStr ''mqtt'')"
    by (simp add: example_const_def example_mqtt_input_def)
  from gateway_entry_created_when_valid [of example_const example_env "''MQTT''" example_mqtt_input "VStr ''mqtt''" "''gw_mqtt''"]
    example_validation dev
  have "async_create_gateway_entry example_const example_env (Some example_mqtt_input) ''MQTT'' ''gw_mqtt'' =
        Inr (CreateEntry (format_value example_env (VStr ''mqtt''))
               (dict_set (KStr (CONF_GATEWAY_TYPE example_const)) (VStr ''MQTT'') example_mqtt_input))"
    by blast
  then show ?thesis
    by (simp add: format_value_def dict_set_def example_const_def example_mqtt_input_def)
qed

text \<open>
  Claim C3. The claim asks that a failing submission to any gateway step comes back as
  the form with field errors and that no exception leaves the handler, in particular
  for serial and TCP submissions without the MQTT topic keys. The code reads
  \<open>user_input[CONF_TOPIC_IN_PREFIX]\<close> for every gateway type, so the submission of the
  serial form leaves the serial step as \<open>KeyError\<close>.
\<close>

theorem gw_serial_without_topic_keys_raises:
  "async_step_gw_serial example_const example_env (Some example_serial_input) =
     Inl (KeyError (KStr ''topic_in_prefix''))"
  by (simp add: async_step_gw_serial_def async_create_gateway_entry_def run_validation_def
      validate_topic_def dict_item_def example_const_def example_serial_input_def)

text \<open>
  Claim C10, as it stands, fails where the form is shown again after a submission: the
  default of the device field is then the submitted device.
\<close>

theorem serial_form_default_device_counterexample:
  "CONF_GATEWAY_TYPE_SERIAL example_const = ''Serial'' \<and>
   map field_default
     (base_schema example_const example_env [(KStr ''device'', VStr ''/dev/ttyUSB0'')] ''Serial'') ! 0
     = Some (VStr ''/dev/ttyUSB0'') \<and>
   VStr ''/dev/ttyUSB0'' \<noteq> VStr ''/dev/ttyACM0''"
  by (simp add: base_schema_def example_const_def dict_get_default_def)

text \<open>
  Claim C10, amended. The dictionary \<open>base_schema\<close> of \<open>_get_gateway_schema\<close> has a
  device field and a baud-rate field. The default of the device field is the device of
  \<open>user_input\<close> when it has one; otherwise it is \<open>/dev/ttyACM0\<close> for the serial gateway
  type and \<open>127.0.0.1\<close> for every other gateway type. The default of the baud-rate field
  is 115200 for the serial gateway type and 5003 for every other gateway type.
\<close>

theorem base_schema_defaults:
  "map field_key (base_schema c env user_input gw_type) = [CONF_DEVICE c, CONF_BAUD_RATE c] \<and>
   map field_default (base_schema c env user_input gw_type) =
     [Some (case map_of user_input (KStr (CONF_DEVICE c)) of
              Some dev \<Rightarrow> dev
            | None \<Rightarrow> VStr (if gw_type = CONF_GATEWAY_TYPE_SERIAL c then ''/dev/ttyACM0'' else ''127.0.0.1'')),
      Some (VInt (if gw_type = CONF_GATEWAY_TYPE_SERIAL c then 115200 else 5003))] \<and>
   default_device c gw_type = (if gw_type = CONF_GATEWAY_TYPE_SERIAL c then ''/dev/ttyACM0'' else ''127.0.0.1'') \<and>
   default_baud_rate c gw_type = (if gw_type = CONF_GATEWAY_TYPE_SERIAL c then 115200 else 5003)"
  by (simp add: base_schema_def default_device_def default_baud_rate_def dict_get_default_def
      DEFAULT_BAUD_RATE_def DEFAULT_TCP_PORT_def split: option.splits)

section \<open>Properties of the ZHA diagnostics\<close>

text \<open>
  A dictionary display or comprehension whose items have pairwise distinct keys is the
  list of its items, in order.
\<close>

lemma dict_set_fresh: "k \<notin> fst ` set d \<Longrightarrow> dict_set k v d = d @ [(k, v)]"
  unfolding dict_set_def by (induction d) auto

lemma dict_update_distinct:
  "distinct (map fst (d @ items)) \<Longrightarrow> dict_update d items = d @ items"
proof (induction items arbitrary: d)
  case Nil
  then show ?case by (simp add: dict_update_def)
next
  case (Cons kv items)
  obtain k v where kv: "kv = (k, v)" by (cases kv)
  from Cons.prems kv have fresh: "k \<notin> fst ` set d" by auto
  from Cons.prems kv have "distinct (map fst ((d @ [(k, v)]) @ items))" by auto
  then have "dict_update (d @ [(k, v)]) items = (d @ [(k, v)]) @ items" by (rule Cons.IH)
  then show ?case using fresh kv by (simp add: dict_update_def dict_set_fresh)
qed

lemma dict_of_distinct: "distinct (map fst items) \<Longrightarrow> dict_of items = items"
  using dict_update_distinct [of "[]" items] by (simp add: dict_of_def)

text \<open>
  The rendering of an identifier can be read back, so it is injective; an identifier
  below \<open>0x10000\<close> has exactly four digits.
\<close>

lemma hex_digit_value: "d < 16 \<Longrightarrow> digit_value (hex_digit d) = d"
proof -
  assume d: "d < 16"
  have "list_all (\<lambda>d. digit_value (hex_digit d) = d) [0..<16]"
    by code_simp
  then have "\<forall>x \<in> set [0..<16]. digit_value (hex_digit x) = x"
    by (simp only: list_all_iff)
  moreover from d have "d \<in> set [0..<16]" by simp
  ultimately show ?thesis by blast
qed

lemma hex_digit_lower: "d < 16 \<Longrightarrow> hex_digit d \<in> set ''0123456789abcdef''"
  unfolding hex_digit_def by (rule nth_mem) simp

lemma hex_value_snoc: "hex_value (s @ [ch]) = 16 * hex_value s + digit_value ch"
  by (simp add: hex_value_def)

lemma hex_value_to_hex: "hex_value (to_hex n) = n"
proof (induction n rule: to_hex.induct)
  case (1 n)
  show ?case
  proof (cases "n < 16")
    case True
    then have "to_hex n = [hex_digit n]" by (subst to_hex.simps) simp
    with True show ?thesis by (simp add: hex_value_def hex_digit_value)
  next
    case False
    with 1 have "hex_value (to_hex (n div 16)) = n div 16" by simp
    moreover have "to_hex n = to_hex (n div 16) @ [hex_digit (n mod 16)]"
      using False by (subst to_hex.simps) simp
    ultimately show ?thesis by (simp add: hex_value_snoc hex_digit_value)
  qed
qed

lemma digit_value_zero: "digit_value (CHR ''0'') = 0"
  by (simp add: digit_value_def)

lemma hex_value_zeros: "hex_value (replicate k (CHR ''0'') @ s) = hex_value s"
proof -
  have "foldl (\<lambda>acc ch. 16 * acc + digit_value ch) 0 (replicate k (CHR ''0'')) = 0"
    by (induction k) (simp_all add: digit_value_zero)
  then show ?thesis by (simp add: hex_value_def)
qed

lemma hex_value_format: "hex_value (format_04x n) = n"
  by (simp add: format_04x_def hex_value_zeros hex_value_to_hex)

lemma hex_key_inj: "hex_key m = hex_key n \<Longrightarrow> m = n"
proof -
  assume "hex_key m = hex_key n"
  then have "format_04x m = format_04x n" by (simp add: hex_key_def)
  then have "hex_value (format_04x m) = hex_value (format_04x n)" by simp
  then show "m = n" by (simp add: hex_value_format)
qed

lemma to_hex_lower: "set (to_hex n) \<subseteq> set ''0123456789abcdef''"
proof (induction n rule: to_hex.induct)
  case (1 n)
  show ?case
  proof (cases "n < 16")
    case True
    then show ?thesis using hex_digit_lower [of n] by (subst to_hex.simps) simp
  next
    case False
    have "n mod 16 < 16" by simp
    then have "hex_digit (n mod 16) \<in> set ''0123456789abcdef''" by (rule hex_digit_lower)
    moreover from 1 False have "set (to_hex (n div 16)) \<subseteq> set ''0123456789abcdef''" by simp
    moreover have "to_hex n = to_hex (n div 16) @ [hex_digit (n mod 16)]"
      using False by (subst to_hex.simps) simp
    ultimately show ?thesis by simp
  qed
qed

lemma to_hex_length: "0 < k \<Longrightarrow> n < 16 ^ k \<Longrightarrow> length (to_hex n) \<le> k"
proof (induction n arbitrary: k rule: to_hex.induct)
  case (1 n)
  show ?case
  proof (cases "n < 16")
    case True
    then show ?thesis using "1.prems" by (subst to_hex.simps) simp
  next
    case False
    from "1.prems" obtain j where kj: "k = Suc j" by (cases k) auto
    have "0 < j"
    proof (cases j)
      case 0
      with kj "1.prems" False show ?thesis by simp
    next
      case (Suc i)
      then show ?thesis by simp
    qed
    with kj have j: "k = Suc j" "0 < j" by simp_all
    from "1.prems" j have "n div 16 < 16 ^ j"
      by (simp add: less_mult_imp_div_less mult.commute)
    with 1 False j have "length (to_hex (n div 16)) \<le> j" by simp
    moreover have "to_hex n = to_hex (n div 16) @ [hex_digit (n mod 16)]"
      using False by (subst to_hex.simps) simp
    ultimately show ?thesis using j by simp
  qed
qed

lemma to_hex_nonempty: "0 < length (to_hex n)"
  by (subst to_hex.simps) simp

lemma format_04x_length: "n < 65536 \<Longrightarrow> length (format_04x n) = 4"
proof -
  assume "n < 65536"
  then have "n < 16 ^ 4" by simp
  then have "length (to_hex n) \<le> 4" using to_hex_length [of 4 n] by simp
  then show ?thesis by (simp add: format_04x_def)
qed

lemma format_04x_lower: "set (format_04x n) \<subseteq> set ''0123456789abcdef''"
proof -
  have z: "CHR ''0'' \<in> set ''0123456789abcdef''" by simp
  have "set (replicate (4 - length (to_hex n)) (CHR ''0'')) \<subseteq> {CHR ''0''}"
    by auto
  with z have "set (replicate (4 - length (to_hex n)) (CHR ''0'')) \<subseteq> set ''0123456789abcdef''"
    by blast
  with to_hex_lower [of n] show ?thesis
    unfolding format_04x_def set_append by blast
qed

text \<open>
  The loop over the endpoints skips endpoint 0 and appends one entry for every other
  endpoint; the comprehensions over clusters and attributes keep one entry per item
  because the rendering of the ids is injective.
\<close>

lemma endpoint_loop_distinct:
  "distinct (map fst eps) \<Longrightarrow>
   (\<forall>(ep_id, ep) \<in> set eps. KInt (int ep_id) \<notin> fst ` set acc) \<Longrightarrow>
   endpoint_loop zc P eps acc =
     acc @ map (\<lambda>(ep_id, ep). (KInt (int ep_id), VDict (endpoint_details zc P ep)))
             (filter (\<lambda>(ep_id, ep). ep_id \<noteq> 0) eps)"
proof (induction eps arbitrary: acc)
  case Nil
  then show ?case by simp
next
  case (Cons p eps)
  obtain ep_id ep where p: "p = (ep_id, ep)" by (cases p)
  show ?case
  proof (cases "ep_id = 0")
    case True
    from Cons.prems have "distinct (map fst eps)"
      and "\<forall>(i, e) \<in> set eps. KInt (int i) \<notin> fst ` set acc" by auto
    then have "endpoint_loop zc P eps acc =
     acc @ map (\<lambda>(ep_id, ep). (KInt (int ep_id), VDict (endpoint_details zc P ep)))
             (filter (\<lambda>(ep_id, ep). ep_id \<noteq> 0) eps)" by (rule Cons.IH)
    with True p show ?thesis by simp
  next
    case False
    let ?acc = "acc @ [(KInt (int ep_id), VDict (endpoint_details zc P ep))]"
    from Cons.prems p have fresh: "KInt (int ep_id) \<notin> fst ` set acc" by auto
    from Cons.prems p have d: "distinct (map fst eps)" and notin: "ep_id \<notin> fst ` set eps" by auto
    have nf: "\<forall>(i, e) \<in> set eps. KInt (int i) \<notin> fst ` set ?acc"
    proof (rule ballI)
      fix x assume x: "x \<in> set eps"
      obtain i e where ie: "x = (i, e)" by (cases x)
      from x ie Cons.prems have "KInt (int i) \<notin> fst ` set acc" by auto
      moreover from x ie notin have "i \<noteq> ep_id" by force
      ultimately have "KInt (int i) \<notin> fst ` set ?acc" by auto
      with ie show "case x of (i, e) \<Rightarrow> KInt (int i) \<notin> fst ` set ?acc" by simp
    qed
    have "endpoint_loop zc P eps ?acc =
     ?acc @ map (\<lambda>(ep_id, ep). (KInt (int ep_id), VDict (endpoint_details zc P ep)))
             (filter (\<lambda>(ep_id, ep). ep_id \<noteq> 0) eps)" by (rule Cons.IH [OF d nf])
    with False p fresh show ?thesis by (simp add: dict_set_fresh)
  qed
qed

lemma get_endpoint_cluster_attr_data_distinct:
  "distinct (map fst (endpoints dev)) \<Longrightarrow>
   get_endpoint_cluster_attr_data zc P dev =
     map (\<lambda>(ep_id, ep). (KInt (int ep_id), VDict (endpoint_details zc P ep)))
       (filter (\<lambda>(ep_id, ep). ep_id \<noteq> 0) (endpoints dev))"
  unfolding get_endpoint_cluster_attr_data_def
  using endpoint_loop_distinct [of "endpoints dev" "[]" zc P] by simp

lemma distinct_hex_keys:
  "distinct (map fst items) \<Longrightarrow>
   distinct (map fst (map (\<lambda>(i, x). (hex_key i, f i x)) items))"
proof -
  assume d: "distinct (map fst items)"
  have eq: "map fst (map (\<lambda>(i, x). (hex_key i, f i x)) items) = map hex_key (map fst items)"
    by (induction items) auto
  have inj: "inj_on hex_key (set (map fst items))"
    by (rule inj_onI) (rule hex_key_inj)
  from d inj have "distinct (map hex_key (map fst items))"
    by (subst distinct_map) blast
  then show ?thesis by (simp only: eq)
qed

lemma clusters_section_distinct:
  "distinct (map fst clusters) \<Longrightarrow>
   clusters_section zc clusters =
     map (\<lambda>(cluster_id, cl). (hex_key cluster_id, VDict (cluster_entry zc cl))) clusters"
  unfolding clusters_section_def
  by (rule dict_of_distinct) (rule distinct_hex_keys)

lemma attributes_section_distinct:
  assumes "distinct (map fst (attributes cl))"
  shows "attributes_section zc cl =
     map (\<lambda>(aid, attr_def).
            (hex_key aid,
             VDict (dict_of [(KStr (ATTR_ATTRIBUTE_NAME zc), VStr (attr_name attr_def)),
                             (KStr (ATTR_VALUE zc), cluster_get cl (attr_name attr_def))])))
       (filter (\<lambda>(aid, attr_def). cluster_get cl (attr_name attr_def) \<noteq> VNone) (attributes cl))"
proof -
  from assms have "distinct (map fst (filter (\<lambda>(aid, attr_def). cluster_get cl (attr_name attr_def) \<noteq> VNone) (attributes cl)))"
    by (rule distinct_map_filter)
  then show ?thesis
    unfolding attributes_section_def
    by (intro dict_of_distinct distinct_hex_keys)
qed

lemma cluster_entry_attributes:
  "map_of (cluster_entry zc cl) (KStr ATTRIBUTES) = Some (VDict (attributes_section zc cl))"
  by (simp add: cluster_entry_def get_cluster_attr_data_def dict_of_def dict_update_def dict_set_def
      ATTRIBUTES_def UNSUPPORTED_ATTRIBUTES_def)

lemma hex_key_four_digits:
  "n < 65536 \<Longrightarrow>
   \<exists>s. hex_key n = KStr (''0x'' @ s) \<and> length s = 4 \<and>
       set s \<subseteq> set ''0123456789abcdef'' \<and> hex_value s = n"
  using format_04x_length [of n] format_04x_lower [of n] hex_value_format [of n]
  unfolding hex_key_def by blast

lemma endpoint_key_cases:
  "(profiles_get P (profile_id ep) = None \<or> device_type ep = None \<longrightarrow>
      endpoint_key zc P ep = UNKNOWN zc) \<and>
   (\<forall>profile dt. profiles_get P (profile_id ep) = Some profile \<and> device_type ep = Some dt \<longrightarrow>
      endpoint_key zc P ep = profile dt)"
  by (auto simp: endpoint_key_def split: option.splits)

lemma endpoint_details_distinct:
  "distinct [ATTR_DEVICE_TYPE zc, ATTR_PROFILE_ID zc, ATTR_IN_CLUSTERS zc, ATTR_OUT_CLUSTERS zc] \<Longrightarrow>
   endpoint_details zc P ep =
     [(KStr (ATTR_DEVICE_TYPE zc),
       VDict (dict_of [(KStr (CONF_NAME zc), VStr (endpoint_key zc P ep)),
                       (KStr (CONF_ID zc), opt_int (device_type ep))])),
      (KStr (ATTR_PROFILE_ID zc), opt_int (profile_id ep)),
      (KStr (ATTR_IN_CLUSTERS zc), VDict (clusters_section zc (in_clusters ep))),
      (KStr (ATTR_OUT_CLUSTERS zc), VDict (clusters_section zc (out_clusters ep)))]"
  unfolding endpoint_details_def
  by (rule dict_of_distinct) auto


text \<open>
  Claim C9. For a device whose endpoint table has pairwise distinct ids (it is a
  dictionary), \<open>get_endpoint_cluster_attr_data\<close> returns one entry for each endpoint with
  a non-zero id, in order, and none for endpoint 0. The entry of an endpoint lists its
  device type, profile id, input clusters and output clusters. The clusters of an
  endpoint and the attributes of a cluster are keyed by \<open>0x\<close> and the id in lowercase
  hexadecimal, which for an id below \<open>0x10000\<close> is exactly four digits that read back as
  the id. The attributes section of a cluster holds exactly the defined attributes
  whose cached value is not \<open>None\<close>, in order. The device-type name is \<open>UNKNOWN\<close> when
  the profile id is not in \<open>PROFILES\<close> or the device type is \<open>None\<close>, and the name given
  by the profile otherwise.
\<close>

theorem endpoint_cluster_attr_data_shape:
  "(distinct (map fst (endpoints dev)) \<longrightarrow>
      get_endpoint_cluster_attr_data zc P dev =
        map (\<lambda>(ep_id, ep). (KInt (int ep_id), VDict (endpoint_details zc P ep)))
          (filter (\<lambda>(ep_id, ep). ep_id \<noteq> 0) (endpoints dev))) \<and>
   (distinct [ATTR_DEVICE_TYPE zc, ATTR_PROFILE_ID zc, ATTR_IN_CLUSTERS zc, ATTR_OUT_CLUSTERS zc] \<longrightarrow>
      endpoint_details zc P ep =
        [(KStr (ATTR_DEVICE_TYPE zc),
          VDict (dict_of [(KStr (CONF_NAME zc), VStr (endpoint_key zc P ep)),
                          (KStr (CONF_ID zc), opt_int (device_type ep))])),
         (KStr (ATTR_PROFILE_ID zc), opt_int (profile_id ep)),
         (KStr (ATTR_IN_CLUSTERS zc), VDict (clusters_section zc (in_clusters ep))),
         (KStr (ATTR_OUT_CLUSTERS zc), VDict (clusters_section zc (out_clusters ep)))]) \<and>
   (distinct (map fst clusters) \<longrightarrow>
      clusters_section zc clusters =
        map (\<lambda>(cluster_id, cl). (hex_key cluster_id, VDict (cluster_entry zc cl))) clusters) \<and>
   map_of (cluster_entry zc cl) (KStr ATTRIBUTES) = Some (VDict (attributes_section zc cl)) \<and>
   (distinct (map fst (attributes cl)) \<longrightarrow>
      attributes_section zc cl =
        map (\<lambda>(aid, attr_def).
               (hex_key aid,
                VDict (dict_of [(KStr (ATTR_ATTRIBUTE_NAME zc), VStr (attr_name attr_def)),
                                (KStr (ATTR_VALUE zc), cluster_get cl (attr_name attr_def))])))
          (filter (\<lambda>(aid, attr_def). cluster_get cl (attr_name attr_def) \<noteq> VNone) (attributes cl))) \<and>
   (n < 65536 \<longrightarrow>
      (\<exists>s. hex_key n = KStr (''0x'' @ s) \<and> length s = 4 \<and>
           set s \<subseteq> set ''0123456789abcdef'' \<and> hex_value s = n)) \<and>
   (profiles_get P (profile_id ep) = None \<or> device_type ep = None \<longrightarrow>
      endpoint_key zc P ep = UNKNOWN zc) \<and>
   (\<forall>profile dt. profiles_get P (profile_id ep) = Some profile \<and> device_type ep = Some dt \<longrightarrow>
      endpoint_key zc P ep = profile dt)"
  apply (intro conjI)
  using get_endpoint_cluster_attr_data_distinct apply blast
  using endpoint_details_distinct apply blast
  using clusters_section_distinct apply blast
  apply (rule cluster_entry_attributes)
  using attributes_section_distinct apply blast
  using hex_key_four_digits apply blast
  using endpoint_key_cases apply blast
  using endpoint_key_cases apply blast
  done

theorem endpoint_cluster_attr_data_shape_witness:
  "map fst (get_endpoint_cluster_attr_data example_zha_const example_profiles example_device) = [KInt 1] \<and>
   map fst (clusters_section example_zha_const (in_clusters example_endpoint)) = [hex_key 6] \<and>
   map fst (attributes_section example_zha_const example_cluster) = [hex_key 0] \<and>
   (\<exists>s. hex_key 6 = KStr (''0x'' @ s) \<and> length s = 4 \<and> hex_value s = 6) \<and>
   endpoint_key example_zha_const example_profiles example_zdo_endpoint = ''unknown'' \<and>
   endpoint_key example_zha_const example_profiles example_endpoint = ''ON_OFF_LIGHT''"
proof -
  note shape = endpoint_cluster_attr_data_shape
    [of example_device example_zha_const example_profiles _ "in_clusters example_endpoint" example_cluster 6]
  have d1: "distinct (map fst (endpoints example_device))"
    by (simp add: example_device_def)
  have d2: "distinct (map fst (in_clusters example_endpoint))"
    by (simp add: example_endpoint_def)
  have d3: "distinct (map fst (attributes example_cluster))"
    by (simp add: example_cluster_def)
  have n: "(6::nat) < 65536" by simp
  from shape d1 have "get_endpoint_cluster_attr_data example_zha_const example_profiles example_device =
        map (\<lambda>(ep_id, ep). (KInt (int ep_id), VDict (endpoint_details example_zha_const example_profiles ep)))
          (filter (\<lambda>(ep_id, ep). ep_id \<noteq> 0) (endpoints example_device))" by blast
  then have 1: "map fst (get_endpoint_cluster_attr_data example_zha_const example_profiles example_device) = [KInt 1]"
    by (simp add: example_device_def)
  from shape d2 have "clusters_section example_zha_const (in_clusters example_endpoint) =
        map (\<lambda>(cluster_id, cl). (hex_key cluster_id, VDict (cluster_entry example_zha_const cl)))
          (in_clusters example_endpoint)" by blast
  then have 2: "map fst (clusters_section example_zha_const (in_clusters example_endpoint)) = [hex_key 6]"
    by (simp add: example_endpoint_def)
  from shape d3 have "attributes_section example_zha_const example_cluster =
        map (\<lambda>(aid, attr_def).
               (hex_key aid,
                VDict (dict_of [(KStr (ATTR_ATTRIBUTE_NAME example_zha_const), VStr (attr_name attr_def)),
                                (KStr (ATTR_VALUE example_zha_const), cluster_get example_cluster (attr_name attr_def))])))
          (filter (\<lambda>(aid, attr_def). cluster_get example_cluster (attr_name attr_def) \<noteq> VNone)
             (attributes example_cluster))" by blast
  then have 3: "map fst (attributes_section example_zha_const example_cluster) = [hex_key 0]"
    by (simp add: example_cluster_def)
  from shape n have 4: "\<exists>s. hex_key 6 = KStr (''0x'' @ s) \<and> length s = 4 \<and> hex_value s = 6" by blast
  have p0: "profiles_get example_profiles (profile_id example_zdo_endpoint) = None"
    by (simp add: profiles_get_def example_zdo_endpoint_def)
  from endpoint_cluster_attr_data_shape [of _ example_zha_const example_profiles example_zdo_endpoint] p0
  have "endpoint_key example_zha_const example_profiles example_zdo_endpoint = UNKNOWN example_zha_const"
    by blast
  then have 5: "endpoint_key example_zha_const example_profiles example_zdo_endpoint = ''unknown''"
    by (simp add: example_zha_const_def)
  have 6: "endpoint_key example_zha_const example_profiles example_endpoint = ''ON_OFF_LIGHT''"
    by (simp add: endpoint_key_def profiles_get_def example_endpoint_def example_profiles_def)
  from 1 2 3 4 5 6 show ?thesis by blast
qed

lemma energy_scan_section_distinct:
  "distinct (map fst scan) \<Longrightarrow>
   energy_scan_section scan = map (\<lambda>(channel, energy). (KInt channel, VReal (100 * energy / 255))) scan"
proof -
  assume d: "distinct (map fst scan)"
  have "map fst (map (\<lambda>(channel, energy). (KInt channel, VReal (100 * energy / 255))) scan)
          = map KInt (map fst scan)"
    by (induction scan) auto
  moreover have "distinct (map KInt (map fst scan))"
    using d by (subst distinct_map) (auto intro: inj_onI)
  ultimately have "distinct (map fst (map (\<lambda>(channel, energy). (KInt channel, VReal (100 * energy / 255))) scan))"
    by (simp only:)
  then show ?thesis unfolding energy_scan_section_def by (rule dict_of_distinct)
qed

lemma payload_energy_scan:
  "map_of (config_entry_payload inp) (KStr ''energy_scan'') =
     Some (VDict (energy_scan_section (energy_scan inp)))"
  by (simp add: config_entry_payload_def dict_of_def dict_update_def dict_set_def)

lemma redact_scan_items:
  "map (\<lambda>(k, v). (k, if is_redact_key keys k then r else async_redact_data r keys v))
     (map (\<lambda>(channel, energy). (KInt channel, VReal (100 * energy / 255))) scan)
   = map (\<lambda>(channel, energy). (KInt channel, VReal (100 * energy / 255))) scan"
  by (induction scan) (auto simp: is_redact_key_def)

lemma redacted_energy_scan:
  assumes "distinct (map fst (energy_scan inp))" and "''energy_scan'' \<notin> KEYS_TO_REDACT zc"
  shows "\<exists>d. async_get_config_entry_diagnostics zc inp = VDict d \<and>
             map_of d (KStr ''energy_scan'') = Some (VDict (energy_scan_section (energy_scan inp)))"
proof -
  have sec: "async_redact_data (REDACTED zc) (KEYS_TO_REDACT zc) (VDict (energy_scan_section (energy_scan inp)))
               = VDict (energy_scan_section (energy_scan inp))"
    unfolding energy_scan_section_distinct [OF assms(1)] async_redact_data.simps redact_scan_items
    by (rule refl)
  have "map_of (map (\<lambda>(k, v). (k, if is_redact_key (KEYS_TO_REDACT zc) k then REDACTED zc
                                      else async_redact_data (REDACTED zc) (KEYS_TO_REDACT zc) v))
                  (config_entry_payload inp)) (KStr ''energy_scan'')
        = Some (async_redact_data (REDACTED zc) (KEYS_TO_REDACT zc) (VDict (energy_scan_section (energy_scan inp))))"
    using assms(2)
    by (simp add: config_entry_payload_def dict_of_def dict_update_def dict_set_def is_redact_key_def)
  with sec show ?thesis
    by (simp add: async_get_config_entry_diagnostics_def)
qed

lemma percentage_bounds:
  fixes energy :: real
  shows "0 \<le> energy \<Longrightarrow> energy \<le> 255 \<Longrightarrow> 0 \<le> 100 * energy / 255 \<and> 100 * energy / 255 \<le> 100"
  by simp

lemma energy_scan_lookup:
  assumes "distinct (map fst scan)" and "(channel, energy) \<in> set scan"
  shows "map_of (energy_scan_section scan) (KInt channel) = Some (VReal (100 * energy / 255))"
proof -
  have "map_of (map (\<lambda>(channel, energy). (KInt channel, VReal (100 * energy / 255))) scan) (KInt channel)
          = map_option (\<lambda>energy. VReal (100 * energy / 255)) (map_of scan channel)"
    by (induction scan) auto
  moreover from assms have "map_of scan channel = Some energy" by simp
  ultimately show ?thesis using assms(1) by (simp add: energy_scan_section_distinct)
qed

text \<open>
  Claim C8. The energy scan is a dictionary, so its channels are distinct. The
  energy-scan section of the config-entry diagnostics has exactly the channels of the
  scan, in order, each with \<open>100 * energy / 255\<close>; it is the entry \<open>energy_scan\<close> of the
  assembled payload, and of the returned diagnostics unless \<open>energy_scan\<close> is itself a
  redacted key. For every raw energy between 0 and 255 the reported value lies between 0
  and 100. The division is taken over the real numbers.
\<close>

theorem energy_scan_percentages:
  assumes "distinct (map fst (energy_scan inp))"
  shows "energy_scan_section (energy_scan inp) =
           map (\<lambda>(channel, energy). (KInt channel, VReal (100 * energy / 255))) (energy_scan inp) \<and>
         map_of (config_entry_payload inp) (KStr ''energy_scan'') =
           Some (VDict (energy_scan_section (energy_scan inp))) \<and>
         (''energy_scan'' \<notin> KEYS_TO_REDACT zc \<longrightarrow>
            (\<exists>d. async_get_config_entry_diagnostics zc inp = VDict d \<and>
                 map_of d (KStr ''energy_scan'') = Some (VDict (energy_scan_section (energy_scan inp))))) \<and>
         (\<forall>(channel, energy) \<in> set (energy_scan inp).
            0 \<le> energy \<and> energy \<le> 255 \<longrightarrow>
              (\<exists>v. map_of (energy_scan_section (energy_scan inp)) (KInt channel) = Some (VReal v) \<and>
                   v = 100 * energy / 255 \<and> 0 \<le> v \<and> v \<le> 100))"
proof (intro conjI)
  show "energy_scan_section (energy_scan inp) =
           map (\<lambda>(channel, energy). (KInt channel, VReal (100 * energy / 255))) (energy_scan inp)"
    using assms by (rule energy_scan_section_distinct)
  show "map_of (config_entry_payload inp) (KStr ''energy_scan'') =
           Some (VDict (energy_scan_section (energy_scan inp)))"
    by (rule payload_energy_scan)
  show "''energy_scan'' \<notin> KEYS_TO_REDACT zc \<longrightarrow>
            (\<exists>d. async_get_config_entry_diagnostics zc inp = VDict d \<and>
                 map_of d (KStr ''energy_scan'') = Some (VDict (energy_scan_section (energy_scan inp))))"
    using assms redacted_energy_scan by blast
  show "\<forall>(channel, energy) \<in> set (energy_scan inp).
            0 \<le> energy \<and> energy \<le> 255 \<longrightarrow>
              (\<exists>v. map_of (energy_scan_section (energy_scan inp)) (KInt channel) = Some (VReal v) \<and>
                   v = 100 * energy / 255 \<and> 0 \<le> v \<and> v \<le> 100)"
  proof (clarify)
    fix channel energy
    assume mem: "(channel, energy) \<in> set (energy_scan inp)" and lo: "0 \<le> energy" and hi: "energy \<le> 255"
    from assms mem have "map_of (energy_scan_section (energy_scan inp)) (KInt channel)
                           = Some (VReal (100 * energy / 255))"
      by (rule energy_scan_lookup)
    with percentage_bounds [OF lo hi]
    show "\<exists>v. map_of (energy_scan_section (energy_scan inp)) (KInt channel) = Some (VReal v) \<and>
                   v = 100 * energy / 255 \<and> 0 \<le> v \<and> v \<le> 100"
      by blast
  qed
qed

theorem energy_scan_percentages_witness:
  "energy_scan_section (energy_scan example_diagnostics_input) =
     [(KInt 11, VReal 20), (KInt 12, VReal 100), (KInt 26, VReal 0)]"
proof -
  have d: "distinct (map fst (energy_scan example_diagnostics_input))"
    by (simp add: example_diagnostics_input_def)
  from energy_scan_percentages [OF d]
  have "energy_scan_section (energy_scan example_diagnostics_input) =
           map (\<lambda>(channel, energy). (KInt channel, VReal (100 * energy / 255)))
             (energy_scan example_diagnostics_input)"
    by blast
  then show ?thesis by (simp add: example_diagnostics_input_def)
qed

lemma redact_redacted: "redacted_everywhere r keys (async_redact_data r keys v)"
proof (induction r keys v rule: async_redact_data.induct)
  case (1 r to_redact d)
  then show ?case by (auto simp: list_all_iff)
next
  case (2 r to_redact xs)
  then show ?case by (auto simp: list_all_iff)
qed simp_all

text \<open>
  Claim C1. Both diagnostics operations return their assembled payload passed through
  \<open>async_redact_data\<close> with \<open>KEYS_TO_REDACT\<close>: the config-entry payload, and the device
  information with the cluster details stored in it. In each returned value the value
  of every sensitive key is the redaction marker, at every nesting level of dictionaries
  and lists. The sensitive keys are the IEEE address, the unique id, the alarm master
  code, \<open>network_key\<close>, the extended PAN id and \<open>partner_ieee\<close>.
\<close>

theorem diagnostics_are_redacted:
  "async_get_config_entry_diagnostics zc inp =
     async_redact_data (REDACTED zc) (KEYS_TO_REDACT zc) (VDict (config_entry_payload inp)) \<and>
   redacted_everywhere (REDACTED zc) (KEYS_TO_REDACT zc) (async_get_config_entry_diagnostics zc inp) \<and>
   fst (async_get_device_diagnostics zc P dev) =
     async_redact_data (REDACTED zc) (KEYS_TO_REDACT zc)
       (VDict (dict_set (KStr CLUSTER_DETAILS) (VDict (get_endpoint_cluster_attr_data zc P dev))
                 (zha_device_info dev))) \<and>
   redacted_everywhere (REDACTED zc) (KEYS_TO_REDACT zc) (fst (async_get_device_diagnostics zc P dev)) \<and>
   (is_redact_key (KEYS_TO_REDACT zc) (KStr s) \<longleftrightarrow>
      s \<in> {ATTR_IEEE zc, CONF_UNIQUE_ID zc, CONF_ALARM_MASTER_CODE zc, ''network_key'',
           CONF_NWK_EXTENDED_PAN_ID zc, ''partner_ieee''})"
proof (intro conjI)
  show "async_get_config_entry_diagnostics zc inp =
     async_redact_data (REDACTED zc) (KEYS_TO_REDACT zc) (VDict (config_entry_payload inp))"
    by (simp add: async_get_config_entry_diagnostics_def)
  show "redacted_everywhere (REDACTED zc) (KEYS_TO_REDACT zc) (async_get_config_entry_diagnostics zc inp)"
    unfolding async_get_config_entry_diagnostics_def by (rule redact_redacted)
  show "fst (async_get_device_diagnostics zc P dev) =
     async_redact_data (REDACTED zc) (KEYS_TO_REDACT zc)
       (VDict (dict_set (KStr CLUSTER_DETAILS) (VDict (get_endpoint_cluster_attr_data zc P dev))
                 (zha_device_info dev)))"
    by (simp add: async_get_device_diagnostics_def Let_def)
  show "redacted_everywhere (REDACTED zc) (KEYS_TO_REDACT zc) (fst (async_get_device_diagnostics zc P dev))"
    unfolding async_get_device_diagnostics_def Let_def fst_conv by (rule redact_redacted)
  show "is_redact_key (KEYS_TO_REDACT zc) (KStr s) \<longleftrightarrow>
      s \<in> {ATTR_IEEE zc, CONF_UNIQUE_ID zc, CONF_ALARM_MASTER_CODE zc, ''network_key'',
           CONF_NWK_EXTENDED_PAN_ID zc, ''partner_ieee''}"
    by (simp add: is_redact_key_def KEYS_TO_REDACT_def)
qed

theorem diagnostics_are_redacted_witness:
  "(\<exists>d. fst (async_get_device_diagnostics example_zha_const example_profiles example_device) = VDict d \<and>
        map_of d (KStr ''ieee'') = Some (VStr ''**REDACTED**'') \<and>
        map_of d (KStr ''nwk'') = Some (VInt 9536)) \<and>
   (\<exists>d. async_get_config_entry_diagnostics example_zha_const example_diagnostics_input = VDict d \<and>
        map_of d (KStr ''config_entry'') = Some (VDict [(KStr ''unique_id'', VStr ''**REDACTED**'')]) \<and>
        map_of d (KStr ''application_state'') =
          Some (VDict [(KStr ''node_info'',
                        VDict [(KStr ''ieee'', VStr ''**REDACTED**''), (KStr ''nwk'', VInt 0)])]))"
proof -
  note inst = diagnostics_are_redacted [of example_zha_const example_diagnostics_input example_profiles example_device]
  from inst have "fst (async_get_device_diagnostics example_zha_const example_profiles example_device) =
     async_redact_data (REDACTED example_zha_const) (KEYS_TO_REDACT example_zha_const)
       (VDict (dict_set (KStr CLUSTER_DETAILS)
                 (VDict (get_endpoint_cluster_attr_data example_zha_const example_profiles example_device))
                 (zha_device_info example_device)))" by blast
  then have 1: "\<exists>d. fst (async_get_device_diagnostics example_zha_const example_profiles example_device) = VDict d \<and>
        map_of d (KStr ''ieee'') = Some (VStr ''**REDACTED**'') \<and>
        map_of d (KStr ''nwk'') = Some (VInt 9536)"
    by (simp add: example_device_def example_zha_const_def dict_set_def CLUSTER_DETAILS_def
        is_redact_key_def KEYS_TO_REDACT_def)
  from inst have "async_get_config_entry_diagnostics example_zha_const example_diagnostics_input =
     async_redact_data (REDACTED example_zha_const) (KEYS_TO_REDACT example_zha_const)
       (VDict (config_entry_payload example_diagnostics_input))" by blast
  then have 2: "\<exists>d. async_get_config_entry_diagnostics example_zha_const example_diagnostics_input = VDict d \<and>
        map_of d (KStr ''config_entry'') = Some (VDict [(KStr ''unique_id'', VStr ''**REDACTED**'')]) \<and>
        map_of d (KStr ''application_state'') =
          Some (VDict [(KStr ''node_info'',
                        VDict [(KStr ''ieee'', VStr ''**REDACTED**''), (KStr ''nwk'', VInt 0)])])"
    by (simp add: config_entry_payload_def example_diagnostics_input_def example_zha_const_def
        dict_of_def dict_update_def dict_set_def is_redact_key_def KEYS_TO_REDACT_def)
  from 1 2 show ?thesis by blast
qed

text \<open>
  Claim C6, as it stands, fails for the device-info record: after
  \<open>async_get_device_diagnostics\<close> the dictionary read from \<open>zha_device.zha_device_info\<close>
  has the key \<open>cluster_details\<close>, which it did not have before.
\<close>

theorem device_info_unchanged_counterexample:
  "map_of (zha_device_info example_device) (KStr ''cluster_details'') = None \<and>
   map_of (zha_device_info (snd (async_get_device_diagnostics example_zha_const example_profiles example_device)))
     (KStr ''cluster_details'') \<noteq> None \<and>
   zha_device_info (snd (async_get_device_diagnostics example_zha_const example_profiles example_device))
     \<noteq> zha_device_info example_device"
proof -
  have 1: "map_of (zha_device_info example_device) (KStr ''cluster_details'') = None"
    by (simp add: example_device_def)
  have 2: "map_of (zha_device_info (snd (async_get_device_diagnostics example_zha_const example_profiles example_device)))
     (KStr ''cluster_details'') \<noteq> None"
    by (simp add: async_get_device_diagnostics_def Let_def map_of_dict_set CLUSTER_DETAILS_def)
  from 1 2 have "zha_device_info (snd (async_get_device_diagnostics example_zha_const example_profiles example_device))
     \<noteq> zha_device_info example_device" by metis
  with 1 2 show ?thesis by blast
qed

text \<open>
  Claim C6, amended. \<open>async_get_device_diagnostics\<close> leaves the endpoints of the device,
  with their clusters and attribute tables, unchanged. In the dictionary read from
  \<open>zha_device.zha_device_info\<close> it sets the key \<open>cluster_details\<close> to the result of
  \<open>get_endpoint_cluster_attr_data\<close> and leaves every other key as it was.
  \<open>get_endpoint_cluster_attr_data\<close> and \<open>get_cluster_attr_data\<close> only read the records
  they are given: they are functions of the device and of the cluster.
\<close>

theorem device_info_gains_cluster_details:
  "endpoints (snd (async_get_device_diagnostics zc P dev)) = endpoints dev \<and>
   zha_device_info (snd (async_get_device_diagnostics zc P dev)) =
     dict_set (KStr CLUSTER_DETAILS) (VDict (get_endpoint_cluster_attr_data zc P dev))
       (zha_device_info dev) \<and>
   map_of (zha_device_info (snd (async_get_device_diagnostics zc P dev))) (KStr CLUSTER_DETAILS) =
     Some (VDict (get_endpoint_cluster_attr_data zc P dev)) \<and>
   (\<forall>k. k \<noteq> KStr CLUSTER_DETAILS \<longrightarrow>
      map_of (zha_device_info (snd (async_get_device_diagnostics zc P dev))) k =
        map_of (zha_device_info dev) k)"
  by (simp add: async_get_device_diagnostics_def Let_def map_of_dict_set)

theorem device_info_gains_cluster_details_witness:
  "map_of (zha_device_info (snd (async_get_device_diagnostics example_zha_const example_profiles example_device)))
     (KStr ''ieee'') = Some (VStr ''00:0d:6f:00:0a:90:69:e7'') \<and>
   map fst (endpoints (snd (async_get_device_diagnostics example_zha_const example_profiles example_device)))
     = [0, 1]"
proof -
  note inst = device_info_gains_cluster_details [of example_zha_const example_profiles example_device]
  have ne: "KStr ''ieee'' \<noteq> KStr CLUSTER_DETAILS" by (simp add: CLUSTER_DETAILS_def)
  with inst have "map_of (zha_device_info (snd (async_get_device_diagnostics example_zha_const example_profiles example_device)))
     (KStr ''ieee'') = map_of (zha_device_info example_device) (KStr ''ieee'')" by blast
  moreover from inst have "endpoints (snd (async_get_device_diagnostics example_zha_const example_profiles example_device))
     = endpoints example_device" by blast
  ultimately show ?thesis by (simp add: example_device_def)
qed

end
